theory Spec2Isabelle
  imports Main "HOL-Library.Word"
begin

section \<open>Python values used by backend/main.py\<close>

text \<open>
  A Python \<open>str\<close> is a sequence of Unicode code points, so it is modelled as a list of
  natural numbers; \<open>lit\<close> turns an ASCII literal of the source into that list.
  \<open>bytes\<close> is a list of 8-bit words.
\<close>

type_synonym pystr = "nat list"

type_synonym pybytes = "8 word list"

definition lit :: "string \<Rightarrow> pystr" where
  "lit s = map of_char s"

text \<open>
  \<open>str.strip()\<close> without an argument removes leading and trailing characters that
  \<open>str.isspace\<close> accepts. These are the code points CPython classifies as whitespace.
\<close>

definition isspace :: "nat \<Rightarrow> bool" where
  "isspace c = (c \<in> set [0x09, 0x0A, 0x0B, 0x0C, 0x0D, 0x1C, 0x1D, 0x1E, 0x1F, 0x20, 0x85, 0xA0,
      0x1680, 0x2000, 0x2001, 0x2002, 0x2003, 0x2004, 0x2005, 0x2006, 0x2007, 0x2008, 0x2009,
      0x200A, 0x2028, 0x2029, 0x202F, 0x205F, 0x3000])"

definition strip :: "pystr \<Rightarrow> pystr" where
  "strip s = rev (dropWhile isspace (rev (dropWhile isspace s)))"

text \<open>\<open>sub in s\<close> on strings: \<open>sub\<close> occurs in \<open>s\<close> as a contiguous substring.\<close>

fun starts_with :: "pystr \<Rightarrow> pystr \<Rightarrow> bool" where
  "starts_with [] s = True"
| "starts_with (p # ps) [] = False"
| "starts_with (p # ps) (c # cs) = (if p = c then starts_with ps cs else False)"

fun str_contains :: "pystr \<Rightarrow> pystr \<Rightarrow> bool" where
  "str_contains sub [] = (sub = [])"
| "str_contains sub (c # cs) = (if starts_with sub (c # cs) then True else str_contains sub cs)"

section \<open>Exceptions\<close>

text \<open>
  The exception classes the module declares (\<open>ServiceError\<close>, \<open>GroqError\<close>,
  \<open>TranscriptionError\<close>), the provider library's \<open>groq.APIError\<close>, and the builtin
  classes the module can meet. \<open>OtherException\<close> stands for any further subclass of
  \<open>Exception\<close> that is unrelated to the named ones. An exception value carries its class
  and the text \<open>str(e)\<close> that the f-strings of the source interpolate.
\<close>

datatype exn_class =
    Exception
  | ServiceError
  | GroqError
  | TranscriptionError
  | APIError
  | IndexError
  | KeyError
  | ValueError
  | OtherException

datatype exn = Exn (cls: exn_class) (str: pystr)

text \<open>The method resolution order of each class, up to \<open>Exception\<close>.\<close>

fun mro :: "exn_class \<Rightarrow> exn_class list" where
  "mro Exception = [Exception]"
| "mro ServiceError = [ServiceError, Exception]"
| "mro GroqError = [GroqError, ServiceError, Exception]"
| "mro TranscriptionError = [TranscriptionError, ServiceError, Exception]"
| "mro APIError = [APIError, Exception]"
| "mro IndexError = [IndexError, Exception]"
| "mro KeyError = [KeyError, Exception]"
| "mro ValueError = [ValueError, Exception]"
| "mro OtherException = [OtherException, Exception]"

text \<open>An \<open>except C\<close> clause catches \<open>e\<close> when \<open>isinstance(e, C)\<close>.\<close>

definition isinstance :: "exn \<Rightarrow> exn_class \<Rightarrow> bool" where
  "isinstance e c = (c \<in> set (mro (cls e)))"

section \<open>The provider client\<close>

text \<open>
  The two outbound calls of the module go through the client object \<open>groq.Groq\<close>. The
  library is not part of the repository, so the client is a pair of functions from the
  arguments the module passes to the outcome of the call: an exception, or the returned
  value. With \<open>response_format="text"\<close> the transcription call returns a \<open>str\<close>. A chat
  completion has a list of choices, each with a message whose content is a \<open>str\<close> or
  \<open>None\<close>.
\<close>

record transcription_request =
  file_name :: "pystr option"
  file_content :: pybytes
  stt_model :: pystr
  response_format :: pystr
  language :: pystr

record chat_message =
  role :: pystr
  content :: pystr

record chat_request =
  messages :: "chat_message list"
  llm_model :: pystr

record choice =
  message_content :: "pystr option"

record chat_completion =
  choices :: "choice list"

record Groq =
  audio_transcriptions_create :: "transcription_request \<Rightarrow> exn + pystr"
  chat_completions_create :: "chat_request \<Rightarrow> exn + chat_completion"

text \<open>The outbound calls a request makes, in the order it makes them.\<close>

datatype outbound_call =
    TranscriptionCall transcription_request
  | CompletionCall chat_request

fun is_completion_call :: "outbound_call \<Rightarrow> bool" where
  "is_completion_call (CompletionCall r) = True"
| "is_completion_call (TranscriptionCall r) = False"

section \<open>Module initialisation (lines 23 to 36)\<close>

definition WHISPER_MODEL :: pystr where
  "WHISPER_MODEL = lit ''whisper-large-v3-turbo''"

definition LLM_MODEL :: pystr where
  "LLM_MODEL = lit ''openai/gpt-oss-20b''"

text \<open>
  \<open>os.environ[k]\<close> raises \<open>KeyError(k)\<close> for a missing key; \<open>str\<close> of that exception is
  the \<open>repr\<close> of the key, which for this key is the name in single quotes.
\<close>

definition environ_getitem :: "(pystr \<rightharpoonup> pystr) \<Rightarrow> string \<Rightarrow> exn + pystr" where
  "environ_getitem environ k =
     (case environ (lit k) of
        None \<Rightarrow> Inl (Exn KeyError (lit ([CHR 0x27] @ k @ [CHR 0x27])))
      | Some v \<Rightarrow> Inr v)"

text \<open>
  What the module holds after a successful import: the credential and the client handle,
  which is \<open>None\<close> when constructing the client raised.
\<close>

record module_globals =
  GROQ_API_KEY :: pystr
  groq_client :: "Groq option"

text \<open>
  The import of the module: the printed lines, and either the exception that aborts the
  import or the globals. \<open>Groq_new api_key\<close> is the constructor call
  \<open>groq.Groq(api_key=...)\<close>.
\<close>

definition module_init ::
  "(pystr \<rightharpoonup> pystr) \<Rightarrow> (pystr \<Rightarrow> exn + Groq) \<Rightarrow> pystr list \<times> (exn + module_globals)" where
  "module_init environ Groq_new =
     (case environ_getitem environ ''GROQ_API_KEY'' of
        Inl e \<Rightarrow> ([], Inl e)
      | Inr key \<Rightarrow>
          if key = [] then
            ([], Inl (Exn ValueError (lit
              ''Environment variable GROQ_API_KEY tidak ditemukan. Silakan atur terlebih dahulu.'')))
          else
            (case Groq_new key of
               Inr client \<Rightarrow> ([], Inr \<lparr>GROQ_API_KEY = key, groq_client = Some client\<rparr>)
             | Inl e \<Rightarrow>
                 if isinstance e Exception then
                   ([lit ''Gagal menginisialisasi klien Groq: '' @ str e],
                    Inr \<lparr>GROQ_API_KEY = key, groq_client = None\<rparr>)
                 else ([], Inl e)))"

section \<open>Data model\<close>

record AnalysisResponse =
  analysis :: "pystr option"
  error :: "pystr option"

text \<open>
  The attributes of the upload the module reads. Whatever else the upload object carries
  is the extension part of the record.
\<close>

record UploadFile =
  filename :: "pystr option"
  content_type :: "pystr option"
  "file" :: pybytes

record HTTPException =
  status_code :: nat
  detail :: pystr

section \<open>The two steps\<close>

definition transcribe_audio ::
  "module_globals \<Rightarrow> 'a UploadFile_scheme \<Rightarrow> outbound_call list \<times> (exn + pystr)" where
  "transcribe_audio g audio_file =
     (case groq_client g of
        None \<Rightarrow> ([], Inl (Exn GroqError (lit ''Klien Groq tidak tersedia.'')))
      | Some client \<Rightarrow>
          (let request = \<lparr>file_name = filename audio_file, file_content = file audio_file,
                          stt_model = WHISPER_MODEL, response_format = lit ''text'',
                          language = lit ''id''\<rparr>;
               body =
                 (case audio_transcriptions_create client request of
                    Inl e \<Rightarrow> Inl e
                  | Inr transcription \<Rightarrow>
                      if strip transcription = [] then
                        Inl (Exn TranscriptionError (lit
                          ''Tidak dapat mendeteksi suara dalam rekaman. Audio mungkin terlalu sunyi atau tidak jelas.''))
                      else Inr transcription)
           in ([TranscriptionCall request],
               case body of
                 Inr transcription \<Rightarrow> Inr transcription
               | Inl e \<Rightarrow>
                   if isinstance e APIError then
                     Inl (Exn GroqError (lit ''Error dari API Groq saat transkripsi: '' @ str e))
                   else if isinstance e Exception then
                     Inl (Exn TranscriptionError (lit ''Gagal mentranskripsi audio: '' @ str e))
                   else Inl e)))"

definition system_prompt :: pystr where
  "system_prompt = lit (
     ''[RULES]'' @
     ''Always respond in Bahasa Indonesia.'' @
     ''DO NOT respond with markdown formatting.'' @
     ''IF there is no user_message or depression detected, respond with: '' @
       [CHR 0x27] @ ''Tidak ada indikasi depresi.'' @ [CHR 0x27] @
     ''[END RULES]'' @
     ''[INSTRUCTIONS]'' @
     ''Your job is to analyze the given user messages for signs of depression.'' @
     ''You will provide a detailed analysis based on the following criteria:'' @
     ''- Frequency of negative words and phrases.'' @
     ''- Presence of suicidal or self-harm thoughts.'' @
     ''- Emotional tone and intensity.'' @
     ''Your response should be clear, concise, and actionable.'' @
     ''[END INSTRUCTIONS]'')"

text \<open>The f-string of line 131: the label, a line feed, and the text between double quotes.\<close>

definition user_content :: "pystr \<Rightarrow> pystr" where
  "user_content text = lit ''Teks transkripsi:'' @ [0x0A] @ [0x22] @ text @ [0x22]"

definition analyze_text_with_groq ::
  "module_globals \<Rightarrow> pystr \<Rightarrow> outbound_call list \<times> (exn + pystr option)" where
  "analyze_text_with_groq g text =
     (case groq_client g of
        None \<Rightarrow> ([], Inl (Exn GroqError (lit ''Klien Groq tidak tersedia.'')))
      | Some client \<Rightarrow>
          (let request = \<lparr>messages =
                            [\<lparr>role = lit ''system'', content = system_prompt\<rparr>,
                             \<lparr>role = lit ''user'', content = user_content text\<rparr>],
                          llm_model = LLM_MODEL\<rparr>;
               body =
                 (case chat_completions_create client request of
                    Inl e \<Rightarrow> Inl e
                  | Inr chat_completion \<Rightarrow>
                      (case choices chat_completion of
                         [] \<Rightarrow> Inl (Exn IndexError (lit ''list index out of range''))
                       | first # rest \<Rightarrow> Inr (message_content first)))
           in ([CompletionCall request],
               case body of
                 Inr result \<Rightarrow> Inr result
               | Inl e \<Rightarrow>
                   if isinstance e APIError then
                     Inl (Exn GroqError (lit ''Error dari API Groq saat analisis: '' @ str e))
                   else if isinstance e Exception then
                     Inl (Exn GroqError (lit ''Terjadi kesalahan saat menganalisis teks: '' @ str e))
                   else Inl e)))"

section \<open>The request handler\<close>

text \<open>The \<open>except\<close> clauses of lines 173 to 180, tried in the order of the source.\<close>

definition except_clauses :: "exn \<Rightarrow> exn + HTTPException" where
  "except_clauses e =
     (if isinstance e TranscriptionError then
        Inr \<lparr>status_code = 400, detail = str e\<rparr>
      else if isinstance e GroqError then
        Inr \<lparr>status_code = 503, detail = str e\<rparr>
      else if isinstance e Exception then
        Inr \<lparr>status_code = 500, detail = lit ''Terjadi kesalahan tak terduga: '' @ str e\<rparr>
      else Inl e)"

text \<open>
  The outcome of the handler: the \<open>HTTPException\<close> it raises, or the body it returns
  with status 200, which the framework builds from the returned dictionary through
  \<open>AnalysisResponse\<close> (a missing field takes its default \<open>None\<close>).
\<close>

datatype outcome =
    Raises HTTPException
  | Returns AnalysisResponse
  | Propagates exn

definition raise_for :: "exn \<Rightarrow> outcome" where
  "raise_for e = (case except_clauses e of Inr h \<Rightarrow> Raises h | Inl e' \<Rightarrow> Propagates e')"

text \<open>
  The check of line 165: \<open>not audio.content_type or "audio" not in audio.content_type\<close>.
  \<open>None\<close> and the empty string are falsy, and \<open>or\<close> evaluates its right operand only
  when the left one is false.
\<close>

definition rejects_content_type :: "pystr option \<Rightarrow> bool" where
  "rejects_content_type ct =
     (case ct of
        None \<Rightarrow> True
      | Some s \<Rightarrow> if s = [] then True else \<not> str_contains (lit ''audio'') s)"

text \<open>The body of the \<open>try\<close> block up to the value of \<open>analysis\<close> (lines 169 and 170).\<close>

definition try_body ::
  "module_globals \<Rightarrow> 'a UploadFile_scheme \<Rightarrow> outbound_call list \<times> (exn + pystr option)" where
  "try_body g audio =
     (case transcribe_audio g audio of
        (calls1, Inl e) \<Rightarrow> (calls1, Inl e)
      | (calls1, Inr transcription) \<Rightarrow>
          (case analyze_text_with_groq g transcription of
             (calls2, r) \<Rightarrow> (calls1 @ calls2, r)))"

definition analyze_audio_endpoint ::
  "module_globals \<Rightarrow> 'a UploadFile_scheme \<Rightarrow> outbound_call list \<times> outcome" where
  "analyze_audio_endpoint g audio =
     (if rejects_content_type (content_type audio) then
        ([], Raises \<lparr>status_code = 400,
                     detail = lit ''File yang diunggah bukan file audio yang valid.''\<rparr>)
      else
        (case try_body g audio of
           (calls, Inr result) \<Rightarrow> (calls, Returns \<lparr>analysis = result, error = None\<rparr>)
         | (calls, Inl e) \<Rightarrow> (calls, raise_for e)))"

section \<open>Example requests\<close>

text \<open>
  Uploads and stub clients for concrete runs of the handler: a client whose transcription
  call returns a given transcript and whose completion call returns given choices.
\<close>

definition speech_wav :: UploadFile where
  "speech_wav = \<lparr>filename = Some (lit ''speech.wav''), content_type = Some (lit ''audio/wav''),
     file = [0x52, 0x49, 0x46, 0x46]\<rparr>"

definition image_png :: UploadFile where
  "image_png = \<lparr>filename = Some (lit ''image.png''), content_type = Some (lit ''image/png''),
     file = [0x89, 0x50, 0x4E, 0x47]\<rparr>"

definition mock_client :: "pystr \<Rightarrow> choice list \<Rightarrow> Groq" where
  "mock_client transcript cs =
     \<lparr>audio_transcriptions_create = (\<lambda>r. Inr transcript),
      chat_completions_create = (\<lambda>r. Inr \<lparr>choices = cs\<rparr>)\<rparr>"

definition mock_globals :: "Groq option \<Rightarrow> module_globals" where
  "mock_globals c = \<lparr>GROQ_API_KEY = lit ''gsk_test'', groq_client = c\<rparr>"

definition silence_wav :: UploadFile where
  "silence_wav = \<lparr>filename = Some (lit ''silence.wav''), content_type = Some (lit ''audio/wav''),
     file = [0x52, 0x49, 0x46, 0x46]\<rparr>"

definition stt_raising_client :: "exn \<Rightarrow> Groq" where
  "stt_raising_client e =
     \<lparr>audio_transcriptions_create = (\<lambda>r. Inl e),
      chat_completions_create = (\<lambda>r. Inr \<lparr>choices = []\<rparr>)\<rparr>"

definition null_content_client :: Groq where
  "null_content_client = mock_client (lit ''saya merasa sedih'') [\<lparr>message_content = None\<rparr>]"

definition scenario_client :: Groq where
  "scenario_client = mock_client (lit ''saya merasa sedih'')
     [\<lparr>message_content = Some (lit ''Tidak ada indikasi depresi.'')\<rparr>]"

definition silent_client :: Groq where
  "silent_client = mock_client (lit ''  '') []"

text \<open>
  The same globals with another completion function in the client, to compare runs that
  differ only in the language-model provider. Environments without the credential and with
  an empty one, and a constructor that raises.
\<close>

definition with_completions ::
  "(chat_request \<Rightarrow> exn + chat_completion) \<Rightarrow> module_globals \<Rightarrow> module_globals" where
  "with_completions f g =
     g\<lparr>groq_client :=
         map_option (\<lambda>client. client\<lparr>chat_completions_create := f\<rparr>) (groq_client g)\<rparr>"

text \<open>
  A client whose completion call answers only the request the Analysis Step is to make for
  the transcript \<open>saya merasa sedih\<close>, and raises on any other request.
\<close>

definition strict_client :: Groq where
  "strict_client =
     \<lparr>audio_transcriptions_create = (\<lambda>r. Inr (lit ''saya merasa sedih'')),
      chat_completions_create = (\<lambda>r.
        if r = \<lparr>messages =
                  [\<lparr>role = lit ''system'', content = system_prompt\<rparr>,
                   \<lparr>role = lit ''user'',
                    content = lit ''Teks transkripsi:\<newline>\"saya merasa sedih\"''\<rparr>],
                llm_model = lit ''openai/gpt-oss-20b''\<rparr>
        then Inr \<lparr>choices = [\<lparr>message_content = Some (lit ''Tidak ada indikasi depresi.'')\<rparr>]\<rparr>
        else Inl (Exn APIError (lit ''unexpected request'')))\<rparr>"

definition no_key_environ :: "pystr \<rightharpoonup> pystr" where
  "no_key_environ = [lit ''PATH'' \<mapsto> lit ''/usr/bin'']"

definition empty_key_environ :: "pystr \<rightharpoonup> pystr" where
  "empty_key_environ = [lit ''GROQ_API_KEY'' \<mapsto> []]"

definition failing_constructor :: "pystr \<Rightarrow> exn + Groq" where
  "failing_constructor key = Inl (Exn OtherException (lit ''boom''))"

section \<open>What a response populates\<close>

text \<open>
  The analysis is populated when the returned body has a non-null \<open>analysis\<close>. Error
  information is populated when the body has a non-null \<open>error\<close> or the request ends in
  an exception, whose detail the framework sends as the body.
\<close>

fun analysis_populated :: "outcome \<Rightarrow> bool" where
  "analysis_populated (Returns r) = (analysis r \<noteq> None)"
| "analysis_populated (Raises h) = False"
| "analysis_populated (Propagates e) = False"

fun error_populated :: "outcome \<Rightarrow> bool" where
  "error_populated (Returns r) = (error r \<noteq> None)"
| "error_populated (Raises h) = True"
| "error_populated (Propagates e) = True"

section \<open>Facts about the model\<close>

lemma isinstance_Exception: "isinstance e Exception"
  by (cases e; case_tac x1; simp add: isinstance_def)

lemma starts_with_iff: "starts_with p s \<longleftrightarrow> (\<exists>q. s = p @ q)"
  by (induction p s rule: starts_with.induct) auto

lemma str_contains_iff: "str_contains sub s \<longleftrightarrow> (\<exists>p q. s = p @ sub @ q)"
proof (induction s)
  case Nil
  show ?case by auto
next
  case (Cons c cs)
  show ?case
  proof
    assume "str_contains sub (c # cs)"
    then consider "starts_with sub (c # cs)" | "str_contains sub cs"
      by (auto split: if_splits)
    then show "\<exists>p q. c # cs = p @ sub @ q"
    proof cases
      case 1
      then obtain q where "c # cs = sub @ q" using starts_with_iff by blast
      then have "c # cs = [] @ sub @ q" by simp
      then show ?thesis by blast
    next
      case 2
      then obtain p q where "cs = p @ sub @ q" using Cons.IH by blast
      then have "c # cs = (c # p) @ sub @ q" by simp
      then show ?thesis by blast
    qed
  next
    assume "\<exists>p q. c # cs = p @ sub @ q"
    then obtain p q where pq: "c # cs = p @ sub @ q" by blast
    show "str_contains sub (c # cs)"
    proof (cases p)
      case Nil
      with pq have "starts_with sub (c # cs)" using starts_with_iff by auto
      then show ?thesis by simp
    next
      case (Cons a p')
      with pq have "cs = p' @ sub @ q" by simp
      then have "str_contains sub cs" using Cons.IH by blast
      then show ?thesis by simp
    qed
  qed
qed

lemma isinstance_TranscriptionError: "isinstance e TranscriptionError \<longleftrightarrow> cls e = TranscriptionError"
  by (cases e; case_tac x1; simp add: isinstance_def)

lemma isinstance_GroqError: "isinstance e GroqError \<longleftrightarrow> cls e = GroqError"
  by (cases e; case_tac x1; simp add: isinstance_def)

lemma isinstance_APIError: "isinstance e APIError \<longleftrightarrow> cls e = APIError"
  by (cases e; case_tac x1; simp add: isinstance_def)

lemma raise_for_cases:
  "raise_for e =
     Raises (if cls e = TranscriptionError then \<lparr>status_code = 400, detail = str e\<rparr>
             else if cls e = GroqError then \<lparr>status_code = 503, detail = str e\<rparr>
             else \<lparr>status_code = 500, detail = lit ''Terjadi kesalahan tak terduga: '' @ str e\<rparr>)"
  by (simp add: raise_for_def except_clauses_def isinstance_Exception
        isinstance_TranscriptionError isinstance_GroqError)

lemma endpoint_accepted:
  "\<not> rejects_content_type (content_type audio) \<Longrightarrow>
   analyze_audio_endpoint g audio =
     (case snd (try_body g audio) of
        Inr result \<Rightarrow> (fst (try_body g audio), Returns \<lparr>analysis = result, error = None\<rparr>)
      | Inl e \<Rightarrow> (fst (try_body g audio), raise_for e))"
  by (simp add: analyze_audio_endpoint_def split: prod.splits sum.splits)

lemma endpoint_rejected:
  "rejects_content_type (content_type audio) \<Longrightarrow>
   analyze_audio_endpoint g audio =
     ([], Raises \<lparr>status_code = 400,
                  detail = lit ''File yang diunggah bukan file audio yang valid.''\<rparr>)"
  by (simp add: analyze_audio_endpoint_def)

lemma try_body_transcription_failed:
  "snd (transcribe_audio g audio) = Inl e \<Longrightarrow>
   try_body g audio = (fst (transcribe_audio g audio), Inl e)"
  by (cases "transcribe_audio g audio") (simp add: try_body_def)

lemma try_body_transcribed:
  "snd (transcribe_audio g audio) = Inr t \<Longrightarrow>
   try_body g audio =
     (fst (transcribe_audio g audio) @ fst (analyze_text_with_groq g t),
      snd (analyze_text_with_groq g t))"
  by (cases "transcribe_audio g audio"; cases "analyze_text_with_groq g t") (simp add: try_body_def)

lemma transcribe_audio_no_client:
  "groq_client g = None \<Longrightarrow>
   transcribe_audio g audio = ([], Inl (Exn GroqError (lit ''Klien Groq tidak tersedia.'')))"
  by (simp add: transcribe_audio_def)

lemma analyze_text_no_client:
  "groq_client g = None \<Longrightarrow>
   analyze_text_with_groq g t = ([], Inl (Exn GroqError (lit ''Klien Groq tidak tersedia.'')))"
  by (simp add: analyze_text_with_groq_def)

lemma transcribe_audio_calls:
  "fst (transcribe_audio g audio) =
     (case groq_client g of
        None \<Rightarrow> []
      | Some client \<Rightarrow>
          [TranscriptionCall \<lparr>file_name = filename audio, file_content = file audio,
             stt_model = WHISPER_MODEL, response_format = lit ''text'', language = lit ''id''\<rparr>])"
  by (simp add: transcribe_audio_def Let_def split: option.splits)

lemma transcribe_audio_raises:
  "snd (transcribe_audio g audio) = Inl e \<Longrightarrow> cls e = GroqError \<or> cls e = TranscriptionError"
  by (auto simp: transcribe_audio_def Let_def isinstance_Exception
        split: option.splits sum.splits if_splits)

lemma analyze_text_raises:
  "snd (analyze_text_with_groq g t) = Inl e \<Longrightarrow> cls e = GroqError"
  by (auto simp: analyze_text_with_groq_def Let_def isinstance_Exception
        split: option.splits sum.splits if_splits list.splits)

lemmas run_defs =
  analyze_audio_endpoint_def try_body_def transcribe_audio_def analyze_text_with_groq_def
  rejects_content_type_def raise_for_def except_clauses_def isinstance_def Let_def
  mock_globals_def mock_client_def stt_raising_client_def speech_wav_def image_png_def
  silence_wav_def strip_def isspace_def lit_def

lemmas run_defs2 = run_defs null_content_client_def scenario_client_def silent_client_def

lemma blank_transcript_general:
  assumes "\<not> rejects_content_type (content_type audio)"
    and "groq_client g = Some client"
    and "audio_transcriptions_create client
        \<lparr>file_name = filename audio, file_content = file audio, stt_model = WHISPER_MODEL,
         response_format = lit ''text'', language = lit ''id''\<rparr> = Inr transcription"
    and "strip transcription = []"
  shows "snd (analyze_audio_endpoint g audio) =
     Raises \<lparr>status_code = 400,
             detail = lit ''Gagal mentranskripsi audio: '' @
               lit ''Tidak dapat mendeteksi suara dalam rekaman. Audio mungkin terlalu sunyi atau tidak jelas.''\<rparr>"
proof -
  have "snd (transcribe_audio g audio) =
      Inl (Exn TranscriptionError (lit ''Gagal mentranskripsi audio: '' @
        lit ''Tidak dapat mendeteksi suara dalam rekaman. Audio mungkin terlalu sunyi atau tidak jelas.''))"
    using assms(2-4)
    by (simp add: transcribe_audio_def Let_def isinstance_Exception isinstance_APIError)
  then have "snd (try_body g audio) =
      Inl (Exn TranscriptionError (lit ''Gagal mentranskripsi audio: '' @
        lit ''Tidak dapat mendeteksi suara dalam rekaman. Audio mungkin terlalu sunyi atau tidak jelas.''))"
    by (simp add: try_body_transcription_failed)
  then show ?thesis
    using assms(1) by (simp add: endpoint_accepted raise_for_cases)
qed

lemma transcribe_audio_with_completions:
  "transcribe_audio (with_completions f g) audio = transcribe_audio g audio"
  by (cases "groq_client g") (simp_all add: transcribe_audio_def with_completions_def Let_def)

lemma transcribe_audio_no_completion_call:
  "list_all (\<lambda>c. \<not> is_completion_call c) (fst (transcribe_audio g audio))"
  by (simp add: transcribe_audio_calls split: option.splits)

lemma endpoint_transcription_failed:
  assumes "snd (transcribe_audio g audio) = Inl e"
  shows "analyze_audio_endpoint g audio =
     (if rejects_content_type (content_type audio) then
        ([], Raises \<lparr>status_code = 400,
                     detail = lit ''File yang diunggah bukan file audio yang valid.''\<rparr>)
      else (fst (transcribe_audio g audio), raise_for e))"
  using assms
  by (simp add: endpoint_rejected endpoint_accepted try_body_transcription_failed)

section \<open>Claims\<close>

text \<open>
  C1. The \<open>except\<close> clauses of the handler map a \<open>TranscriptionError\<close> to status 400
  and a \<open>GroqError\<close> to status 503, each with the exception's message as the detail,
  and every other exception to status 500 with the message behind a fixed prefix. No
  exception is an instance of both classes, so the order of the clauses decides nothing
  more. For an accepted upload, an exception leaving the \<open>try\<close> body becomes the
  response that this mapping gives.
\<close>

theorem error_to_status_mapping:
  "(cls e = TranscriptionError \<longrightarrow>
      raise_for e = Raises \<lparr>status_code = 400, detail = str e\<rparr>) \<and>
   (cls e = GroqError \<longrightarrow>
      raise_for e = Raises \<lparr>status_code = 503, detail = str e\<rparr>) \<and>
   (cls e \<noteq> TranscriptionError \<and> cls e \<noteq> GroqError \<longrightarrow>
      raise_for e = Raises \<lparr>status_code = 500,
                             detail = lit ''Terjadi kesalahan tak terduga: '' @ str e\<rparr>) \<and>
   (\<not> rejects_content_type (content_type audio) \<and> snd (try_body g audio) = Inl e \<longrightarrow>
      snd (analyze_audio_endpoint g audio) = raise_for e)"
  by (simp add: raise_for_cases endpoint_accepted)

theorem error_to_status_mapping_witness:
  "raise_for (Exn TranscriptionError (lit ''t'')) = Raises \<lparr>status_code = 400, detail = lit ''t''\<rparr> \<and>
   raise_for (Exn GroqError (lit ''g'')) = Raises \<lparr>status_code = 503, detail = lit ''g''\<rparr> \<and>
   raise_for (Exn IndexError (lit ''i'')) =
     Raises \<lparr>status_code = 500, detail = lit ''Terjadi kesalahan tak terduga: i''\<rparr> \<and>
   \<not> rejects_content_type (content_type speech_wav) \<and>
   snd (try_body (mock_globals None) speech_wav) = Inl (Exn GroqError (lit ''Klien Groq tidak tersedia.'')) \<and>
   snd (analyze_audio_endpoint (mock_globals None) speech_wav) =
     Raises \<lparr>status_code = 503, detail = lit ''Klien Groq tidak tersedia.''\<rparr>"
proof -
  have a: "\<not> rejects_content_type (content_type speech_wav)"
    by (simp add: rejects_content_type_def speech_wav_def lit_def)
  have b: "snd (try_body (mock_globals None) speech_wav) =
      Inl (Exn GroqError (lit ''Klien Groq tidak tersedia.''))"
    by (simp add: try_body_def transcribe_audio_def mock_globals_def)
  show ?thesis
    using a b
      error_to_status_mapping [of "Exn TranscriptionError (lit ''t'')" speech_wav "mock_globals None"]
      error_to_status_mapping [of "Exn GroqError (lit ''g'')" speech_wav "mock_globals None"]
      error_to_status_mapping [of "Exn IndexError (lit ''i'')" speech_wav "mock_globals None"]
      error_to_status_mapping [of "Exn GroqError (lit ''Klien Groq tidak tersedia.'')" speech_wav
        "mock_globals None"]
    by (simp add: lit_def)
qed

text \<open>
  C2. When the upload is accepted, the transcription call returns a transcript that is not
  blank, and the completion call returns a completion whose first choice has the text
  \<open>t\<close>, the handler returns the body with \<open>analysis = t\<close>, unchanged, and a null
  \<open>error\<close>.
\<close>

theorem success_returns_first_choice_verbatim:
  assumes accepted: "\<not> rejects_content_type (content_type audio)"
    and client: "groq_client g = Some client"
    and transcribed: "audio_transcriptions_create client
        \<lparr>file_name = filename audio, file_content = file audio, stt_model = WHISPER_MODEL,
         response_format = lit ''text'', language = lit ''id''\<rparr> = Inr transcription"
    and nonblank: "strip transcription \<noteq> []"
    and completed: "chat_completions_create client
        \<lparr>messages = [\<lparr>role = lit ''system'', content = system_prompt\<rparr>,
                     \<lparr>role = lit ''user'', content = user_content transcription\<rparr>],
         llm_model = LLM_MODEL\<rparr> = Inr completion"
    and has_first: "choices completion = first # rest"
    and has_text: "message_content first = Some t"
  shows "snd (analyze_audio_endpoint g audio) = Returns \<lparr>analysis = Some t, error = None\<rparr>"
proof -
  have tr: "snd (transcribe_audio g audio) = Inr transcription"
    using client transcribed nonblank by (simp add: transcribe_audio_def Let_def)
  have an: "snd (analyze_text_with_groq g transcription) = Inr (Some t)"
    using client completed has_first has_text by (simp add: analyze_text_with_groq_def Let_def)
  have "snd (try_body g audio) = Inr (Some t)"
    using try_body_transcribed [OF tr] an by simp
  then show ?thesis
    using accepted by (simp add: endpoint_accepted)
qed

theorem success_returns_first_choice_verbatim_witness:
  "snd (analyze_audio_endpoint (mock_globals (Some scenario_client)) speech_wav) =
     Returns \<lparr>analysis = Some (lit ''Tidak ada indikasi depresi.''), error = None\<rparr>"
proof -
  have accepted: "\<not> rejects_content_type (content_type speech_wav)"
    by (simp add: rejects_content_type_def speech_wav_def lit_def)
  have client: "groq_client (mock_globals (Some scenario_client)) = Some scenario_client"
    by (simp add: mock_globals_def)
  have transcribed: "audio_transcriptions_create scenario_client
        \<lparr>file_name = filename speech_wav, file_content = file speech_wav,
         stt_model = WHISPER_MODEL, response_format = lit ''text'', language = lit ''id''\<rparr> =
       Inr (lit ''saya merasa sedih'')"
    by (simp add: scenario_client_def mock_client_def)
  have nonblank: "strip (lit ''saya merasa sedih'') \<noteq> []"
    by (simp add: strip_def isspace_def lit_def)
  have completed: "chat_completions_create scenario_client
        \<lparr>messages = [\<lparr>role = lit ''system'', content = system_prompt\<rparr>,
                     \<lparr>role = lit ''user'', content = user_content (lit ''saya merasa sedih'')\<rparr>],
         llm_model = LLM_MODEL\<rparr> =
       Inr \<lparr>choices = [\<lparr>message_content = Some (lit ''Tidak ada indikasi depresi.'')\<rparr>]\<rparr>"
    by (simp add: scenario_client_def mock_client_def)
  have has_first: "choices \<lparr>choices = [\<lparr>message_content = Some (lit ''Tidak ada indikasi depresi.'')\<rparr>]\<rparr> =
      \<lparr>message_content = Some (lit ''Tidak ada indikasi depresi.'')\<rparr> # []"
    by simp
  have has_text: "message_content \<lparr>message_content = Some (lit ''Tidak ada indikasi depresi.'')\<rparr> =
      Some (lit ''Tidak ada indikasi depresi.'')"
    by simp
  show ?thesis
    by (rule success_returns_first_choice_verbatim
          [OF accepted client transcribed nonblank completed has_first has_text])
qed

text \<open>
  C3. A run of the handler on an accepted upload whose transcript is blank. The
  \<open>TranscriptionError\<close> of line 84 is raised inside the \<open>try\<close> block of
  \<open>transcribe_audio\<close>, so the clause \<open>except Exception\<close> of line 89 catches it and raises
  a new \<open>TranscriptionError\<close> whose message is the prefix of line 90 followed by the
  message of line 84. The response has status 400, and its detail is that longer text,
  not the message of line 84 alone.
\<close>

theorem blank_transcript_detail_is_rewrapped:
  "snd (analyze_audio_endpoint (mock_globals (Some silent_client)) silence_wav) =
     Raises \<lparr>status_code = 400,
             detail = lit ''Gagal mentranskripsi audio: '' @
               lit ''Tidak dapat mendeteksi suara dalam rekaman. Audio mungkin terlalu sunyi atau tidak jelas.''\<rparr>
   \<and> snd (analyze_audio_endpoint (mock_globals (Some silent_client)) silence_wav) \<noteq>
     Raises \<lparr>status_code = 400,
             detail = lit ''Tidak dapat mendeteksi suara dalam rekaman. Audio mungkin terlalu sunyi atau tidak jelas.''\<rparr>"
  by (simp add: run_defs2)

text \<open>
  C4. An upload whose content type is absent, or is a string in which \<open>audio\<close> does not
  occur, is answered with status 400 and the validation message, and the request makes no
  outbound call.
\<close>

theorem non_audio_rejected_without_calls:
  assumes "content_type audio = None \<or>
           (\<exists>s. content_type audio = Some s \<and> \<not> (\<exists>p q. s = p @ lit ''audio'' @ q))"
  shows "analyze_audio_endpoint g audio =
           ([], Raises \<lparr>status_code = 400,
                        detail = lit ''File yang diunggah bukan file audio yang valid.''\<rparr>)"
proof -
  have "rejects_content_type (content_type audio)"
    using assms by (auto simp: rejects_content_type_def str_contains_iff)
  then show ?thesis by (rule endpoint_rejected)
qed

theorem non_audio_rejected_without_calls_witness:
  "content_type image_png = Some (lit ''image/png'') \<and>
   \<not> str_contains (lit ''audio'') (lit ''image/png'') \<and>
   analyze_audio_endpoint (mock_globals (Some scenario_client)) image_png =
     ([], Raises \<lparr>status_code = 400,
                  detail = lit ''File yang diunggah bukan file audio yang valid.''\<rparr>)"
proof -
  have a: "content_type image_png = Some (lit ''image/png'')"
    by (simp add: image_png_def)
  have b: "\<not> str_contains (lit ''audio'') (lit ''image/png'')"
    by (simp add: lit_def)
  then have "\<not> (\<exists>p q. lit ''image/png'' = p @ lit ''audio'' @ q)"
    by (simp add: str_contains_iff)
  with a have "content_type image_png = None \<or>
      (\<exists>s. content_type image_png = Some s \<and> \<not> (\<exists>p q. s = p @ lit ''audio'' @ q))"
    by blast
  then have c: "analyze_audio_endpoint (mock_globals (Some scenario_client)) image_png =
     ([], Raises \<lparr>status_code = 400,
                  detail = lit ''File yang diunggah bukan file audio yang valid.''\<rparr>)"
    by (rule non_audio_rejected_without_calls)
  from a b c show ?thesis by (intro conjI)
qed

text \<open>
  C5. When the Transcription Step raises, the handler answers with an error, the outbound
  calls of the request are those of the Transcription Step alone (none at all when the
  content type was rejected), none of them is a completion call, and the whole result is
  the same whatever the completion function of the client is: the Analysis Step does not
  run.
\<close>

theorem transcription_failure_short_circuits:
  assumes failed: "snd (transcribe_audio g audio) = Inl e"
  shows "(\<exists>h. snd (analyze_audio_endpoint g audio) = Raises h) \<and>
         fst (analyze_audio_endpoint g audio) =
           (if rejects_content_type (content_type audio) then []
            else fst (transcribe_audio g audio)) \<and>
         list_all (\<lambda>c. \<not> is_completion_call c) (fst (analyze_audio_endpoint g audio)) \<and>
         (\<forall>f. analyze_audio_endpoint (with_completions f g) audio =
               analyze_audio_endpoint g audio)"
proof (intro conjI allI)
  note ep = endpoint_transcription_failed [OF failed]
  show "\<exists>h. snd (analyze_audio_endpoint g audio) = Raises h"
    by (simp add: ep raise_for_cases)
  show calls: "fst (analyze_audio_endpoint g audio) =
      (if rejects_content_type (content_type audio) then [] else fst (transcribe_audio g audio))"
    by (simp add: ep)
  show "list_all (\<lambda>c. \<not> is_completion_call c) (fst (analyze_audio_endpoint g audio))"
    using transcribe_audio_no_completion_call [of g audio] by (simp add: calls)
  fix f
  have "snd (transcribe_audio (with_completions f g) audio) = Inl e"
    using failed by (simp add: transcribe_audio_with_completions)
  from endpoint_transcription_failed [OF this]
  show "analyze_audio_endpoint (with_completions f g) audio = analyze_audio_endpoint g audio"
    by (simp add: ep transcribe_audio_with_completions)
qed

theorem transcription_failure_short_circuits_witness:
  "snd (transcribe_audio (mock_globals (Some (stt_raising_client (Exn APIError (lit ''timeout'')))))
        speech_wav) =
     Inl (Exn GroqError (lit ''Error dari API Groq saat transkripsi: timeout'')) \<and>
   list_all (\<lambda>c. \<not> is_completion_call c)
     (fst (analyze_audio_endpoint
        (mock_globals (Some (stt_raising_client (Exn APIError (lit ''timeout''))))) speech_wav)) \<and>
   snd (analyze_audio_endpoint
        (mock_globals (Some (stt_raising_client (Exn APIError (lit ''timeout''))))) speech_wav) =
     Raises \<lparr>status_code = 503, detail = lit ''Error dari API Groq saat transkripsi: timeout''\<rparr>"
proof -
  let ?g = "mock_globals (Some (stt_raising_client (Exn APIError (lit ''timeout''))))"
  have failed: "snd (transcribe_audio ?g speech_wav) =
      Inl (Exn GroqError (lit ''Error dari API Groq saat transkripsi: timeout''))"
    by (simp add: transcribe_audio_def mock_globals_def stt_raising_client_def Let_def
          isinstance_def lit_def)
  have resp: "snd (analyze_audio_endpoint ?g speech_wav) =
      Raises \<lparr>status_code = 503, detail = lit ''Error dari API Groq saat transkripsi: timeout''\<rparr>"
    by (simp add: run_defs)
  from transcription_failure_short_circuits [OF failed] failed resp show ?thesis
    by blast
qed

text \<open>
  C6. With the client handle \<open>None\<close>, each step raises a \<open>GroqError\<close> without any
  outbound call, the handler maps that error to status 503, and an accepted request is
  answered with 503 without any outbound call.
\<close>

theorem missing_client_is_service_unavailable:
  assumes "groq_client g = None"
  shows "transcribe_audio g audio =
           ([], Inl (Exn GroqError (lit ''Klien Groq tidak tersedia.''))) \<and>
         analyze_text_with_groq g t =
           ([], Inl (Exn GroqError (lit ''Klien Groq tidak tersedia.''))) \<and>
         raise_for (Exn GroqError (lit ''Klien Groq tidak tersedia.'')) =
           Raises \<lparr>status_code = 503, detail = lit ''Klien Groq tidak tersedia.''\<rparr> \<and>
         (\<not> rejects_content_type (content_type audio) \<longrightarrow>
            analyze_audio_endpoint g audio =
              ([], Raises \<lparr>status_code = 503, detail = lit ''Klien Groq tidak tersedia.''\<rparr>))"
  using assms
  by (simp add: transcribe_audio_no_client analyze_text_no_client raise_for_cases
        endpoint_accepted try_body_transcription_failed)

theorem missing_client_is_service_unavailable_witness:
  "groq_client (mock_globals None) = None \<and>
   \<not> rejects_content_type (content_type speech_wav) \<and>
   analyze_text_with_groq (mock_globals None) (lit ''saya merasa sedih'') =
     ([], Inl (Exn GroqError (lit ''Klien Groq tidak tersedia.''))) \<and>
   analyze_audio_endpoint (mock_globals None) speech_wav =
     ([], Raises \<lparr>status_code = 503, detail = lit ''Klien Groq tidak tersedia.''\<rparr>)"
proof -
  have a: "groq_client (mock_globals None) = None"
    by (simp add: mock_globals_def)
  have b: "\<not> rejects_content_type (content_type speech_wav)"
    by (simp add: rejects_content_type_def speech_wav_def lit_def)
  from missing_client_is_service_unavailable [OF a, of speech_wav "lit ''saya merasa sedih''"] a b
  show ?thesis by blast
qed

text \<open>
  C7. A run of the handler in which neither the analysis nor the error information is
  populated. The completion's first choice has the content \<open>None\<close>;
  \<open>analyze_text_with_groq\<close>, declared to return a \<open>str\<close>, returns it unchecked, and the
  handler returns status 200 with both \<open>analysis\<close> and \<open>error\<close> null.
\<close>

theorem null_content_populates_neither:
  "snd (analyze_audio_endpoint (mock_globals (Some null_content_client)) speech_wav) =
     Returns \<lparr>analysis = None, error = None\<rparr> \<and>
   \<not> (analysis_populated
         (snd (analyze_audio_endpoint (mock_globals (Some null_content_client)) speech_wav)) \<noteq>
       error_populated
         (snd (analyze_audio_endpoint (mock_globals (Some null_content_client)) speech_wav)))"
  by (simp add: run_defs2)

text \<open>
  C8. With a client present, the Analysis Step makes exactly one outbound call, a completion
  call, and its outcome is what the provider answers to that very request: the request has
  two messages, the system message with the fixed prompt and the user message whose
  content is the label \<open>Teks transkripsi:\<close>, a line feed, and the transcript between
  double quotes. The first choice's content is returned, an empty list of choices or an
  exception of the provider becomes a \<open>GroqError\<close>.
\<close>

theorem analysis_step_sends_two_messages:
  assumes "groq_client g = Some client"
  shows "analyze_text_with_groq g t =
     (let request =
            \<lparr>messages =
               [\<lparr>role = lit ''system'', content = system_prompt\<rparr>,
                \<lparr>role = lit ''user'',
                 content = lit ''Teks transkripsi:'' @ [0x0A] @ [0x22] @ t @ [0x22]\<rparr>],
             llm_model = LLM_MODEL\<rparr>
      in ([CompletionCall request],
          case chat_completions_create client request of
            Inr completion \<Rightarrow>
              (case choices completion of
                 first # rest \<Rightarrow> Inr (message_content first)
               | [] \<Rightarrow> Inl (Exn GroqError (lit
                   ''Terjadi kesalahan saat menganalisis teks: list index out of range'')))
          | Inl e \<Rightarrow>
              Inl (Exn GroqError
                ((if cls e = APIError then lit ''Error dari API Groq saat analisis: ''
                  else lit ''Terjadi kesalahan saat menganalisis teks: '') @ str e))))"
proof -
  let ?request = "\<lparr>messages =
               [\<lparr>role = lit ''system'', content = system_prompt\<rparr>,
                \<lparr>role = lit ''user'',
                 content = lit ''Teks transkripsi:'' @ [0x0A] @ [0x22] @ t @ [0x22]\<rparr>],
             llm_model = LLM_MODEL\<rparr>"
  show ?thesis
  proof (cases "chat_completions_create client ?request")
    case (Inl e)
    with assms show ?thesis
      by (simp add: analyze_text_with_groq_def Let_def user_content_def isinstance_Exception
            isinstance_APIError)
  next
    case (Inr completion)
    show ?thesis
    proof (cases "choices completion")
      case Nil
      have "lit ''Terjadi kesalahan saat menganalisis teks: '' @ lit ''list index out of range'' =
          lit ''Terjadi kesalahan saat menganalisis teks: list index out of range''"
        by (simp add: lit_def)
      with assms Inr Nil show ?thesis
        by (simp add: analyze_text_with_groq_def Let_def user_content_def isinstance_Exception
              isinstance_APIError)
    next
      case (Cons first rest)
      with assms Inr show ?thesis
        by (simp add: analyze_text_with_groq_def Let_def user_content_def)
    qed
  qed
qed

theorem analysis_step_sends_two_messages_witness:
  "analyze_text_with_groq (mock_globals (Some strict_client)) (lit ''saya merasa sedih'') =
     ([CompletionCall
         \<lparr>messages =
            [\<lparr>role = lit ''system'', content = system_prompt\<rparr>,
             \<lparr>role = lit ''user'',
              content = lit ''Teks transkripsi:\<newline>\"saya merasa sedih\"''\<rparr>],
          llm_model = lit ''openai/gpt-oss-20b''\<rparr>],
      Inr (Some (lit ''Tidak ada indikasi depresi.'')))"
proof -
  have "groq_client (mock_globals (Some strict_client)) = Some strict_client"
    by (simp add: mock_globals_def)
  from analysis_step_sends_two_messages [OF this, of "lit ''saya merasa sedih''"]
  show ?thesis by (simp add: Let_def strict_client_def LLM_MODEL_def lit_def)
qed

text \<open>
  C9. When the environment has no \<open>GROQ_API_KEY\<close>, the import of the module raises
  \<open>KeyError\<close>; when the variable is the empty string, it raises \<open>ValueError\<close>. In both
  cases there are no module globals, so no handler can run.
\<close>

theorem missing_credential_aborts_import:
  "(environ (lit ''GROQ_API_KEY'') = None \<longrightarrow>
      module_init environ Groq_new =
        ([], Inl (Exn KeyError (lit ([CHR 0x27] @ ''GROQ_API_KEY'' @ [CHR 0x27]))))) \<and>
   (environ (lit ''GROQ_API_KEY'') = Some [] \<longrightarrow>
      module_init environ Groq_new =
        ([], Inl (Exn ValueError (lit
          ''Environment variable GROQ_API_KEY tidak ditemukan. Silakan atur terlebih dahulu.''))))"
  by (simp add: module_init_def environ_getitem_def)

theorem missing_credential_aborts_import_witness:
  "no_key_environ (lit ''GROQ_API_KEY'') = None \<and>
   empty_key_environ (lit ''GROQ_API_KEY'') = Some [] \<and>
   (\<exists>e. snd (module_init no_key_environ failing_constructor) = Inl e \<and> cls e = KeyError) \<and>
   (\<exists>e. snd (module_init empty_key_environ failing_constructor) = Inl e \<and> cls e = ValueError)"
proof -
  have a: "no_key_environ (lit ''GROQ_API_KEY'') = None"
    by (simp add: no_key_environ_def lit_def)
  have b: "empty_key_environ (lit ''GROQ_API_KEY'') = Some []"
    by (simp add: empty_key_environ_def)
  from missing_credential_aborts_import [of no_key_environ failing_constructor]
    missing_credential_aborts_import [of empty_key_environ failing_constructor] a b
  show ?thesis by simp
qed

end
